theory Spec2Isabelle
  imports Main "HOL-Library.Word"
begin

section \<open>JavaScript values\<close>

text \<open>
  A JavaScript string is a sequence of UTF-16 code units. Values read from
  \<^verbatim>\<open>process.env\<close> are strings or \<^verbatim>\<open>undefined\<close>; property names and string
  literals of the source are written as HOL strings.
\<close>

type_synonym jsstring = "16 word list"

type_synonym env = "string \<rightharpoonup> jsstring"


text \<open>Errors are values: what a \<^verbatim>\<open>throw\<close> or a rejected promise carries.\<close>

datatype js_error = Error string | TypeError string

text \<open>
  Truthiness, as \<^verbatim>\<open>!x\<close> and \<^verbatim>\<open>!!x\<close> read it: \<^verbatim>\<open>undefined\<close> and the empty
  string are falsy; \<^verbatim>\<open>undefined\<close> and the number 0 are falsy.
\<close>

definition truthy_str :: "jsstring option \<Rightarrow> bool" where
  "truthy_str v = (case v of None \<Rightarrow> False | Some s \<Rightarrow> s \<noteq> [])"

definition truthy_num :: "int option \<Rightarrow> bool" where
  "truthy_num v = (case v of None \<Rightarrow> False | Some n \<Rightarrow> n \<noteq> 0)"

section \<open>Connection provider (server/db.ts)\<close>

record pool_config =
  pool_connectionString :: jsstring
  ssl_rejectUnauthorized :: bool

datatype init_event = NewPool pool_config | Drizzle pool_config

text \<open>
  Module initialisation: the connection string is read from the environment, a falsy
  value throws, and only then the pool and the query handle are constructed. The
  result is the thrown error or the pool's configuration, with the constructions
  performed, in order.
\<close>

definition db_module_init :: "env \<Rightarrow> (js_error + pool_config) \<times> init_event list" where
  "db_module_init e =
     (let connectionString = e ''DATABASE_URL'' in
      if \<not> truthy_str connectionString then (Inl (Error ''DATABASE_URL is not set''), [])
      else
        (case connectionString of
           None \<Rightarrow> (Inl (Error ''DATABASE_URL is not set''), [])
         | Some cs \<Rightarrow>
             (let pool = \<lparr>pool_connectionString = cs, ssl_rejectUnauthorized = False\<rparr>
              in (Inr pool, [NewPool pool, Drizzle pool]))))"

text \<open>
  The pool as \<^verbatim>\<open>pingDb\<close> sees it: acquiring a connection yields a client or fails,
  and a query on a client succeeds or fails. The trace records what was done to the
  pool, in order.
\<close>

type_synonym pg_client = nat

record pg_world =
  connect_result :: "js_error + pg_client"
  query_result :: "pg_client \<Rightarrow> string \<Rightarrow> js_error + unit"

datatype pool_event = Connect | Query pg_client string | Release pg_client

text \<open>\<^verbatim>\<open>try { body } finally { fin }\<close>: the finaliser runs after the body on both
  exits, and the body's result (value or exception) is the result of the whole.\<close>

definition try_finally :: "('e + 'a) \<times> 'ev list \<Rightarrow> 'ev list \<Rightarrow> ('e + 'a) \<times> 'ev list" where
  "try_finally body fin = (fst body, snd body @ fin)"

definition pingDb :: "pg_world \<Rightarrow> (js_error + bool) \<times> pool_event list" where
  "pingDb w =
     (case connect_result w of
        Inl err \<Rightarrow> (Inl err, [Connect])
      | Inr client \<Rightarrow>
          (let (r, evs) =
             try_finally
               (case query_result w client ''select 1'' of
                  Inl err \<Rightarrow> (Inl err, [Query client ''select 1''])
                | Inr _ \<Rightarrow> (Inr True, [Query client ''select 1'']))
               [Release client]
           in (r, Connect # evs)))"

section \<open>Auth bootstrap: configuration read at module load\<close>

text \<open>
  \<^verbatim>\<open>String.prototype.trim\<close> removes the code units of WhiteSpace and LineTerminator:
  TAB, LF, VT, FF, CR, SP, NBSP, U+1680, U+2000 to U+200A, U+2028, U+2029, U+202F,
  U+205F, U+3000 and U+FEFF.
\<close>

definition is_ws :: "16 word \<Rightarrow> bool" where
  "is_ws c =
     (c \<in> {9, 10, 11, 12, 13, 32, 160, 5760, 8232, 8233, 8239, 8287, 12288, 65279} \<or>
      (8192 \<le> c \<and> c \<le> 8202))"

definition trim :: "jsstring \<Rightarrow> jsstring" where
  "trim s = rev (dropWhile is_ws (rev (dropWhile is_ws s)))"

text \<open>\<^verbatim>\<open>s.split(sep)\<close> for a one-unit separator: the empty string splits into one
  empty piece, and n separators give n + 1 pieces.\<close>

fun split_on :: "'a \<Rightarrow> 'a list \<Rightarrow> 'a list list" where
  "split_on sep [] = [[]]"
| "split_on sep (c # cs) =
     (if c = sep then [] # split_on sep cs
      else (case split_on sep cs of
              [] \<Rightarrow> [[c]]
            | p # ps \<Rightarrow> (c # p) # ps))"

text \<open>\<^verbatim>\<open>a ?? b ?? ""\<close>: only \<^verbatim>\<open>undefined\<close> falls through, a variable set to the
  empty string does not.\<close>

definition rawDomains :: "env \<Rightarrow> jsstring" where
  "rawDomains e =
     (case e ''ALLOWED_ORIGINS'' of
        Some v \<Rightarrow> v
      | None \<Rightarrow> (case e ''REPLIT_DOMAINS'' of Some v \<Rightarrow> v | None \<Rightarrow> []))"

definition allowedDomains :: "env \<Rightarrow> jsstring list" where
  "allowedDomains e = filter (\<lambda>s. s \<noteq> []) (map trim (split_on 44 (rawDomains e)))"

definition AUTH_ENABLED :: "env \<Rightarrow> bool" where
  "AUTH_ENABLED e = (length (allowedDomains e) > 0 \<and> truthy_str (e ''REPL_ID''))"

text \<open>
  The module's constants are computed from the environment when the module is loaded;
  the functions of the module read the stored values, never the environment, for them.
\<close>

record auth_module =
  mod_allowedDomains :: "jsstring list"
  mod_AUTH_ENABLED :: bool

definition auth_module_init :: "env \<Rightarrow> auth_module" where
  "auth_module_init e =
     \<lparr>mod_allowedDomains = allowedDomains e, mod_AUTH_ENABLED = AUTH_ENABLED e\<rparr>"

section \<open>Auth bootstrap: sessions, tokens and the OIDC client\<close>

record id_claims =
  sub :: jsstring
  exp :: "int option"

text \<open>The token endpoint's response; \<^verbatim>\<open>tokens.claims()\<close> is \<^verbatim>\<open>undefined\<close> when the
  response carries no ID token.\<close>

record token_response =
  tr_claims :: "id_claims option"
  tr_access_token :: jsstring
  tr_refresh_token :: "jsstring option"

record user =
  claims :: "id_claims option"
  access_token :: "jsstring option"
  refresh_token :: "jsstring option"
  expires_at :: "int option"

datatype oidc_config = Configuration jsstring

text \<open>
  What the guard and the bootstrap observe of the outside: the result of the memoised
  \<^verbatim>\<open>getOidcConfig()\<close> (the discovery fetch happens only inside it), the result of
  \<^verbatim>\<open>client.refreshTokenGrant\<close>, the URL built by \<^verbatim>\<open>client.buildEndSessionUrl\<close>
  (or the error it throws), and the clock \<^verbatim>\<open>Date.now()\<close> in milliseconds.
\<close>

record oidc_world =
  getOidcConfig :: "js_error + oidc_config"
  refreshTokenGrant :: "oidc_config \<Rightarrow> jsstring \<Rightarrow> js_error + token_response"
  buildEndSessionUrl :: "oidc_config \<Rightarrow> jsstring option \<Rightarrow> jsstring \<Rightarrow> js_error + jsstring"
  Date_now :: int

datatype oidc_call =
    GetOidcConfig
  | RefreshTokenGrant oidc_config jsstring
  | BuildEndSessionUrl oidc_config
  | Authenticate jsstring

definition updateUserSession :: "user \<Rightarrow> token_response \<Rightarrow> user" where
  "updateUserSession user0 tokens =
     (let user1 = user0\<lparr>claims := tr_claims tokens\<rparr>;
          user2 = user1\<lparr>access_token := Some (tr_access_token tokens)\<rparr>;
          user3 = user2\<lparr>refresh_token := tr_refresh_token tokens\<rparr>
      in user3\<lparr>expires_at := (case claims user3 of None \<Rightarrow> None | Some c \<Rightarrow> exp c)\<rparr>)"

section \<open>Auth bootstrap: the guard for protected routes\<close>

record request =
  req_isAuthenticated :: bool
  req_user :: "user option"
  req_hostname :: jsstring
  req_protocol :: jsstring

datatype outcome = Next | Respond nat string | Throws js_error

text \<open>One run of the guard: how it ended, the request's user object afterwards, and
  the calls made to the OIDC client, in order.\<close>

record guard_result =
  outcome :: outcome
  user_after :: "user option"
  oidc_calls :: "oidc_call list"

definition now_seconds :: "oidc_world \<Rightarrow> int" where
  "now_seconds w = Date_now w div 1000"

definition unauthorized :: "request \<Rightarrow> oidc_call list \<Rightarrow> guard_result" where
  "unauthorized req cs =
     \<lparr>outcome = Respond 401 ''Unauthorized'', user_after = req_user req, oidc_calls = cs\<rparr>"

definition isAuthenticated :: "auth_module \<Rightarrow> oidc_world \<Rightarrow> request \<Rightarrow> guard_result" where
  "isAuthenticated m w req =
     (if \<not> mod_AUTH_ENABLED m
      then \<lparr>outcome = Next, user_after = req_user req, oidc_calls = []\<rparr>
      else if \<not> req_isAuthenticated req then unauthorized req []
      else
        (case req_user req of
           None \<Rightarrow>
             \<lparr>outcome = Throws (TypeError ''Cannot read properties of undefined''),
              user_after = None, oidc_calls = []\<rparr>
         | Some u \<Rightarrow>
             if \<not> truthy_num (expires_at u) then unauthorized req []
             else
               (case expires_at u of
                  None \<Rightarrow> unauthorized req []
                | Some t \<Rightarrow>
                    if now_seconds w \<le> t
                    then \<lparr>outcome = Next, user_after = req_user req, oidc_calls = []\<rparr>
                    else if \<not> truthy_str (refresh_token u) then unauthorized req []
                    else
                      (case refresh_token u of
                         None \<Rightarrow> unauthorized req []
                       | Some refreshToken \<Rightarrow>
                           (case getOidcConfig w of
                              Inl err \<Rightarrow> unauthorized req [GetOidcConfig]
                            | Inr config \<Rightarrow>
                                (case refreshTokenGrant w config refreshToken of
                                   Inl err \<Rightarrow>
                                     unauthorized req
                                       [GetOidcConfig, RefreshTokenGrant config refreshToken]
                                 | Inr tokenResponse \<Rightarrow>
                                     \<lparr>outcome = Next,
                                      user_after = Some (updateUserSession u tokenResponse),
                                      oidc_calls =
                                        [GetOidcConfig,
                                         RefreshTokenGrant config refreshToken]\<rparr>))))))"

section \<open>Auth bootstrap: wiring the application\<close>



















section \<open>Properties of the connection provider\<close>

lemma db_module_init_falsy:
  "\<not> truthy_str (e ''DATABASE_URL'') \<Longrightarrow>
     db_module_init e = (Inl (Error ''DATABASE_URL is not set''), [])"
  by (simp add: db_module_init_def)

lemma db_module_init_truthy:
  "e ''DATABASE_URL'' = Some cs \<Longrightarrow> cs \<noteq> [] \<Longrightarrow>
     db_module_init e =
       (Inr \<lparr>pool_connectionString = cs, ssl_rejectUnauthorized = False\<rparr>,
        [NewPool \<lparr>pool_connectionString = cs, ssl_rejectUnauthorized = False\<rparr>,
         Drizzle \<lparr>pool_connectionString = cs, ssl_rejectUnauthorized = False\<rparr>])"
  by (simp add: db_module_init_def truthy_str_def Let_def)

text \<open>
  C7, as stated, at a variable that is present but empty: the claim says that a present
  \<^verbatim>\<open>DATABASE_URL\<close> does not make initialisation throw; with \<^verbatim>\<open>DATABASE_URL=""\<close>
  the variable is present and initialisation throws "DATABASE_URL is not set".
\<close>

theorem C7_present_empty_throws:
  "(Map.empty(''DATABASE_URL'' \<mapsto> [])) ''DATABASE_URL'' \<noteq> None \<and>
   db_module_init (Map.empty(''DATABASE_URL'' \<mapsto> [])) =
     (Inl (Error ''DATABASE_URL is not set''), [])"
  by (simp add: db_module_init_def truthy_str_def)

text \<open>
  C7, amended: if \<^verbatim>\<open>DATABASE_URL\<close> is absent or the empty string, module
  initialisation throws before any pool is constructed (no construction is recorded);
  if it is a non-empty string, initialisation does not throw and constructs the pool
  with that connection string.
\<close>

theorem C7_database_url_required:
  "(e ''DATABASE_URL'' = None \<or> e ''DATABASE_URL'' = Some [] \<longrightarrow>
      (\<exists>err. fst (db_module_init e) = Inl err) \<and> snd (db_module_init e) = []) \<and>
   (\<forall>cs. e ''DATABASE_URL'' = Some cs \<and> cs \<noteq> [] \<longrightarrow>
      (\<exists>pool. fst (db_module_init e) = Inr pool \<and> pool_connectionString pool = cs \<and>
         snd (db_module_init e) = [NewPool pool, Drizzle pool]))"
proof (intro conjI impI allI)
  assume "e ''DATABASE_URL'' = None \<or> e ''DATABASE_URL'' = Some []"
  then have falsy: "\<not> truthy_str (e ''DATABASE_URL'')"
    by (auto simp: truthy_str_def)
  show "\<exists>err. fst (db_module_init e) = Inl err"
    using falsy by (simp add: db_module_init_falsy)
  show "snd (db_module_init e) = []"
    using falsy by (simp add: db_module_init_falsy)
next
  fix cs
  assume "e ''DATABASE_URL'' = Some cs \<and> cs \<noteq> []"
  then show "\<exists>pool. fst (db_module_init e) = Inr pool \<and> pool_connectionString pool = cs \<and>
         snd (db_module_init e) = [NewPool pool, Drizzle pool]"
    by (simp add: db_module_init_truthy)
qed

theorem C7_database_url_required_witness:
  "(\<exists>err. fst (db_module_init Map.empty) = Inl err) \<and>
   snd (db_module_init Map.empty) = [] \<and>
   (\<exists>pool. fst (db_module_init (Map.empty(''DATABASE_URL'' \<mapsto> [112, 103]))) = Inr pool \<and>
      pool_connectionString pool = [112, 103] \<and>
      snd (db_module_init (Map.empty(''DATABASE_URL'' \<mapsto> [112, 103]))) =
        [NewPool pool, Drizzle pool])"
  using C7_database_url_required [of Map.empty]
    C7_database_url_required [of "Map.empty(''DATABASE_URL'' \<mapsto> [112, 103])"]
  by simp

text \<open>
  C8: when \<^verbatim>\<open>pingDb\<close> has acquired a connection, that connection is released exactly
  once, as the last action, whether the query succeeds or throws; on success the
  result is \<^verbatim>\<open>true\<close>, on failure the query's exception reaches the caller.
\<close>

theorem C8_pingDb_releases_once:
  assumes "connect_result w = Inr client"
  shows "count_list (snd (pingDb w)) (Release client) = 1 \<and>
         snd (pingDb w) = [Connect, Query client ''select 1'', Release client] \<and>
         (case query_result w client ''select 1'' of
            Inr u \<Rightarrow> fst (pingDb w) = Inr True
          | Inl err \<Rightarrow> fst (pingDb w) = Inl err)"
  using assms by (simp add: pingDb_def try_finally_def split: sum.splits)

theorem C8_pingDb_releases_once_witness:
  "count_list (snd (pingDb \<lparr>connect_result = Inr 7, query_result = (\<lambda>c q. Inr ())\<rparr>))
     (Release 7) = 1 \<and>
   fst (pingDb \<lparr>connect_result = Inr 7, query_result = (\<lambda>c q. Inr ())\<rparr>) = Inr True \<and>
   count_list (snd (pingDb \<lparr>connect_result = Inr 7,
       query_result = (\<lambda>c q. Inl (Error ''connection terminated''))\<rparr>)) (Release 7) = 1 \<and>
   fst (pingDb \<lparr>connect_result = Inr 7,
       query_result = (\<lambda>c q. Inl (Error ''connection terminated''))\<rparr>) =
     Inl (Error ''connection terminated'')"
  using
    C8_pingDb_releases_once
      [of "\<lparr>connect_result = Inr 7, query_result = (\<lambda>c q. Inr ())\<rparr>" 7]
    C8_pingDb_releases_once
      [of "\<lparr>connect_result = Inr 7,
            query_result = (\<lambda>c q. Inl (Error ''connection terminated''))\<rparr>" 7]
  by simp

section \<open>Properties of the configuration\<close>

lemma split_on_not_Nil: "split_on sep s \<noteq> []"
  by (induction s) (auto split: list.splits)

text \<open>The pieces of a split hold exactly the units of the string other than the
  separator.\<close>

lemma split_on_units: "\<Union> (set ` set (split_on sep s)) = set s - {sep}"
proof (induction s)
  case Nil
  then show ?case by simp
next
  case (Cons c cs)
  then show ?case
    using split_on_not_Nil [of sep cs]
    by (cases "split_on sep cs") auto
qed

lemma all_dropWhile: "(\<forall>x\<in>set (dropWhile P xs). P x) \<longleftrightarrow> (\<forall>x\<in>set xs. P x)"
  by (induction xs) auto

lemma trim_eq_Nil: "trim p = [] \<longleftrightarrow> (\<forall>c\<in>set p. is_ws c)"
  by (simp add: trim_def all_dropWhile)

lemma allowedDomains_nonempty:
  "allowedDomains e \<noteq> [] \<longleftrightarrow> (\<exists>c\<in>set (rawDomains e). c \<noteq> 44 \<and> \<not> is_ws c)"
proof -
  have "allowedDomains e \<noteq> [] \<longleftrightarrow> (\<exists>p\<in>set (split_on 44 (rawDomains e)). trim p \<noteq> [])"
    by (auto simp: allowedDomains_def filter_empty_conv)
  also have "\<dots> \<longleftrightarrow> (\<exists>c\<in>\<Union> (set ` set (split_on 44 (rawDomains e))). \<not> is_ws c)"
    by (auto simp: trim_eq_Nil)
  also have "\<dots> \<longleftrightarrow> (\<exists>c\<in>set (rawDomains e). c \<noteq> 44 \<and> \<not> is_ws c)"
    unfolding split_on_units by auto
  finally show ?thesis .
qed

text \<open>
  C6: the stored \<^verbatim>\<open>AUTH_ENABLED\<close> is true exactly when the list of allowed origins
  parsed from the origins variable is non-empty and \<^verbatim>\<open>REPL_ID\<close> is configured (set to
  a non-empty string). The list is non-empty exactly when the origins variable holds a
  code unit that is neither a comma nor white space. The value is computed by
  \<open>auth_module_init\<close>, once, from the environment at load; the guard and the
  bootstrap read the stored field.
\<close>

theorem C6_AUTH_ENABLED_iff:
  "(mod_AUTH_ENABLED (auth_module_init e) \<longleftrightarrow>
      mod_allowedDomains (auth_module_init e) \<noteq> [] \<and>
      (\<exists>v. e ''REPL_ID'' = Some v \<and> v \<noteq> [])) \<and>
   (mod_allowedDomains (auth_module_init e) \<noteq> [] \<longleftrightarrow>
      (\<exists>c\<in>set (rawDomains e). c \<noteq> 44 \<and> \<not> is_ws c))"
proof -
  have "truthy_str (e ''REPL_ID'') \<longleftrightarrow> (\<exists>v. e ''REPL_ID'' = Some v \<and> v \<noteq> [])"
    by (cases "e ''REPL_ID''") (simp_all add: truthy_str_def)
  then show ?thesis
    by (simp add: auth_module_init_def AUTH_ENABLED_def allowedDomains_nonempty)
qed

theorem C6_AUTH_ENABLED_iff_witness:
  "mod_AUTH_ENABLED (auth_module_init
     (Map.empty(''ALLOWED_ORIGINS'' \<mapsto> [97, 46, 98, 44, 32, 99], ''REPL_ID'' \<mapsto> [120]))) \<and>
   \<not> mod_AUTH_ENABLED (auth_module_init
     (Map.empty(''ALLOWED_ORIGINS'' \<mapsto> [32, 44, 32], ''REPL_ID'' \<mapsto> [120]))) \<and>
   \<not> mod_AUTH_ENABLED (auth_module_init
     (Map.empty(''ALLOWED_ORIGINS'' \<mapsto> [97, 46, 98, 44, 32, 99])))"
  using
    C6_AUTH_ENABLED_iff
      [of "Map.empty(''ALLOWED_ORIGINS'' \<mapsto> [97, 46, 98, 44, 32, 99], ''REPL_ID'' \<mapsto> [120])"]
    C6_AUTH_ENABLED_iff
      [of "Map.empty(''ALLOWED_ORIGINS'' \<mapsto> [32, 44, 32], ''REPL_ID'' \<mapsto> [120])"]
    C6_AUTH_ENABLED_iff
      [of "Map.empty(''ALLOWED_ORIGINS'' \<mapsto> [97, 46, 98, 44, 32, 99])"]
  by (simp add: rawDomains_def is_ws_def)

section \<open>Properties of the guard\<close>

lemma guard_disabled:
  "\<not> mod_AUTH_ENABLED m \<Longrightarrow>
     isAuthenticated m w req = \<lparr>outcome = Next, user_after = req_user req, oidc_calls = []\<rparr>"
  by (simp add: isAuthenticated_def)

lemma guard_falsy_expiry:
  "mod_AUTH_ENABLED m \<Longrightarrow> req_user req = Some u \<Longrightarrow> \<not> truthy_num (expires_at u) \<Longrightarrow>
     isAuthenticated m w req = unauthorized req []"
  by (simp add: isAuthenticated_def)

lemma guard_fresh:
  "mod_AUTH_ENABLED m \<Longrightarrow> req_isAuthenticated req \<Longrightarrow> req_user req = Some u \<Longrightarrow>
   expires_at u = Some t \<Longrightarrow> t \<noteq> 0 \<Longrightarrow> now_seconds w \<le> t \<Longrightarrow>
     isAuthenticated m w req = \<lparr>outcome = Next, user_after = req_user req, oidc_calls = []\<rparr>"
  by (simp add: isAuthenticated_def truthy_num_def)

lemma guard_no_refresh_token:
  "mod_AUTH_ENABLED m \<Longrightarrow> req_user req = Some u \<Longrightarrow>
   expires_at u = Some t \<Longrightarrow> t < now_seconds w \<Longrightarrow> \<not> truthy_str (refresh_token u) \<Longrightarrow>
     isAuthenticated m w req = unauthorized req []"
  by (simp add: isAuthenticated_def)

text \<open>The refresh path: what the guard does once it has read a truthy refresh token
  from an authenticated session with a truthy, past expiry.\<close>

lemma guard_refresh:
  "mod_AUTH_ENABLED m \<Longrightarrow> req_isAuthenticated req \<Longrightarrow> req_user req = Some u \<Longrightarrow>
   expires_at u = Some t \<Longrightarrow> t \<noteq> 0 \<Longrightarrow> t < now_seconds w \<Longrightarrow>
   refresh_token u = Some rt \<Longrightarrow> rt \<noteq> [] \<Longrightarrow>
     isAuthenticated m w req =
       (case getOidcConfig w of
          Inl err \<Rightarrow> unauthorized req [GetOidcConfig]
        | Inr config \<Rightarrow>
            (case refreshTokenGrant w config rt of
               Inl err \<Rightarrow> unauthorized req [GetOidcConfig, RefreshTokenGrant config rt]
             | Inr tokens \<Rightarrow>
                 \<lparr>outcome = Next, user_after = Some (updateUserSession u tokens),
                  oidc_calls = [GetOidcConfig, RefreshTokenGrant config rt]\<rparr>))"
  by (simp add: isAuthenticated_def truthy_num_def truthy_str_def)

lemma updateUserSession_fields:
  "updateUserSession u tokens =
     \<lparr>claims = tr_claims tokens,
      access_token = Some (tr_access_token tokens),
      refresh_token = tr_refresh_token tokens,
      expires_at = (case tr_claims tokens of None \<Rightarrow> None | Some c \<Rightarrow> exp c)\<rparr>"
  by (simp add: updateUserSession_def Let_def)

text \<open>
  C1: with auth enabled and a session whose \<^verbatim>\<open>expires_at\<close> is past, the guard calls
  \<^verbatim>\<open>next\<close> only when, in this very run, discovery returned a configuration and the
  refresh-token exchange on the session's refresh token succeeded (and both calls are in
  the run's trace); every run that does not call \<^verbatim>\<open>next\<close> answers 401.
\<close>

theorem C1_expired_needs_refresh:
  assumes "mod_AUTH_ENABLED m" and "req_user req = Some u"
    and "expires_at u = Some t" and "t < now_seconds w"
  shows "(outcome (isAuthenticated m w req) = Next \<longrightarrow>
           (\<exists>config rt tokens.
              getOidcConfig w = Inr config \<and> refresh_token u = Some rt \<and>
              refreshTokenGrant w config rt = Inr tokens \<and>
              oidc_calls (isAuthenticated m w req) =
                [GetOidcConfig, RefreshTokenGrant config rt])) \<and>
         (outcome (isAuthenticated m w req) \<noteq> Next \<longrightarrow>
            outcome (isAuthenticated m w req) = Respond 401 ''Unauthorized'')"
  using assms
  by (auto simp: isAuthenticated_def unauthorized_def truthy_str_def
           split: option.splits sum.splits)

theorem C1_expired_needs_refresh_witness:
  "outcome (isAuthenticated \<lparr>mod_allowedDomains = [[97]], mod_AUTH_ENABLED = True\<rparr>
      \<lparr>getOidcConfig = Inr (Configuration [105]), refreshTokenGrant = (\<lambda>c r. Inl (Error ''invalid_grant'')), buildEndSessionUrl = (\<lambda>c i u. Inr []), Date_now = 200000\<rparr>
      \<lparr>req_isAuthenticated = True, req_user = Some \<lparr>claims = None, access_token = None, refresh_token = Some [114], expires_at = Some 100\<rparr>, req_hostname = [97], req_protocol = [104]\<rparr>) = Respond 401 ''Unauthorized''"
proof -
  have h1: "mod_AUTH_ENABLED \<lparr>mod_allowedDomains = [[97]], mod_AUTH_ENABLED = True\<rparr>"
    by simp
  have h2: "req_user \<lparr>req_isAuthenticated = True, req_user = Some \<lparr>claims = None, access_token = None, refresh_token = Some [114], expires_at = Some 100\<rparr>, req_hostname = [97], req_protocol = [104]\<rparr> =
      Some \<lparr>claims = None, access_token = None, refresh_token = Some [114], expires_at = Some 100\<rparr>"
    by simp
  have h3: "expires_at \<lparr>claims = None, access_token = None, refresh_token = Some [114], expires_at = Some 100\<rparr> = Some 100"
    by simp
  have h4: "100 < now_seconds \<lparr>getOidcConfig = Inr (Configuration [105]), refreshTokenGrant = (\<lambda>c r. Inl (Error ''invalid_grant'')), buildEndSessionUrl = (\<lambda>c i u. Inr []), Date_now = 200000\<rparr>"
    by (simp add: now_seconds_def)
  have no: "outcome (isAuthenticated \<lparr>mod_allowedDomains = [[97]], mod_AUTH_ENABLED = True\<rparr>
      \<lparr>getOidcConfig = Inr (Configuration [105]), refreshTokenGrant = (\<lambda>c r. Inl (Error ''invalid_grant'')), buildEndSessionUrl = (\<lambda>c i u. Inr []), Date_now = 200000\<rparr>
      \<lparr>req_isAuthenticated = True, req_user = Some \<lparr>claims = None, access_token = None, refresh_token = Some [114], expires_at = Some 100\<rparr>, req_hostname = [97], req_protocol = [104]\<rparr>) \<noteq> Next"
    by (simp add: isAuthenticated_def now_seconds_def truthy_num_def truthy_str_def
          unauthorized_def)
  from C1_expired_needs_refresh [OF h1 h2 h3 h4] no show ?thesis
    by blast
qed







text \<open>
  C3, as stated, at two sessions with a refresh token and the clock at 200 s. First, a
  session expired at 100 s whose refresh succeeds with a response that carries no ID
  token claims: the guard calls \<^verbatim>\<open>next\<close> and the new \<^verbatim>\<open>expires_at\<close> is
  \<^verbatim>\<open>undefined\<close>, not a future value. Second, a session whose \<^verbatim>\<open>expires_at\<close> is 0
  (in the past): the guard answers 401 and makes no refresh attempt.
\<close>

theorem C3_new_expiry_not_future:
  "isAuthenticated \<lparr>mod_allowedDomains = [[97]], mod_AUTH_ENABLED = True\<rparr>
      \<lparr>getOidcConfig = Inr (Configuration [105]), refreshTokenGrant = (\<lambda>c r. Inr (\<lparr>tr_claims = None, tr_access_token = [116], tr_refresh_token = None\<rparr>)), buildEndSessionUrl = (\<lambda>c i u. Inr []), Date_now = 200000\<rparr>
      \<lparr>req_isAuthenticated = True, req_user = Some \<lparr>claims = None, access_token = None, refresh_token = Some [114], expires_at = Some 100\<rparr>, req_hostname = [97], req_protocol = [104]\<rparr> =
     \<lparr>outcome = Next,
      user_after = Some \<lparr>claims = None, access_token = Some [116],
                         refresh_token = None, expires_at = None\<rparr>,
      oidc_calls = [GetOidcConfig, RefreshTokenGrant (Configuration [105]) [114]]\<rparr> \<and>
   isAuthenticated \<lparr>mod_allowedDomains = [[97]], mod_AUTH_ENABLED = True\<rparr>
      \<lparr>getOidcConfig = Inr (Configuration [105]), refreshTokenGrant = (\<lambda>c r. Inr (\<lparr>tr_claims = None, tr_access_token = [116], tr_refresh_token = None\<rparr>)), buildEndSessionUrl = (\<lambda>c i u. Inr []), Date_now = 200000\<rparr>
      \<lparr>req_isAuthenticated = True, req_user = Some \<lparr>claims = None, access_token = None, refresh_token = Some [114], expires_at = Some 0\<rparr>, req_hostname = [97], req_protocol = [104]\<rparr> =
     \<lparr>outcome = Respond 401 ''Unauthorized'',
      user_after = Some \<lparr>claims = None, access_token = None, refresh_token = Some [114], expires_at = Some 0\<rparr>,
      oidc_calls = []\<rparr>"
  by (simp add: isAuthenticated_def now_seconds_def truthy_num_def truthy_str_def
        unauthorized_def updateUserSession_def Let_def)

text \<open>
  C3, amended: with auth enabled, for every authenticated session whose
  \<^verbatim>\<open>expires_at\<close> is a non-zero timestamp in the past and whose \<^verbatim>\<open>refresh_token\<close> is
  a non-empty string, the guard makes exactly one refresh attempt: one call of
  \<^verbatim>\<open>getOidcConfig\<close> followed, when it returned a configuration, by one call of
  \<^verbatim>\<open>refreshTokenGrant\<close>. If the exchange succeeds the user's claims, tokens and
  \<^verbatim>\<open>expires_at\<close> are updated in place and the request passes through, the new
  \<^verbatim>\<open>expires_at\<close> being the \<^verbatim>\<open>exp\<close> of the new claims (\<^verbatim>\<open>undefined\<close> when there are
  none). If discovery or the exchange fails, the answer is 401, the user is unchanged and
  no further call is made.
\<close>

theorem C3_single_refresh_attempt:
  assumes "mod_AUTH_ENABLED m" and "req_isAuthenticated req" and "req_user req = Some u"
    and "expires_at u = Some t" and "t \<noteq> 0" and "t < now_seconds w"
    and "refresh_token u = Some rt" and "rt \<noteq> []"
  shows "(case getOidcConfig w of
            Inl err \<Rightarrow>
              isAuthenticated m w req =
                \<lparr>outcome = Respond 401 ''Unauthorized'', user_after = Some u,
                 oidc_calls = [GetOidcConfig]\<rparr>
          | Inr config \<Rightarrow>
              (case refreshTokenGrant w config rt of
                 Inl err \<Rightarrow>
                   isAuthenticated m w req =
                     \<lparr>outcome = Respond 401 ''Unauthorized'', user_after = Some u,
                      oidc_calls = [GetOidcConfig, RefreshTokenGrant config rt]\<rparr>
               | Inr tokens \<Rightarrow>
                   isAuthenticated m w req =
                     \<lparr>outcome = Next, user_after = Some (updateUserSession u tokens),
                      oidc_calls = [GetOidcConfig, RefreshTokenGrant config rt]\<rparr> \<and>
                   claims (updateUserSession u tokens) = tr_claims tokens \<and>
                   access_token (updateUserSession u tokens) = Some (tr_access_token tokens) \<and>
                   refresh_token (updateUserSession u tokens) = tr_refresh_token tokens \<and>
                   expires_at (updateUserSession u tokens) =
                     (case tr_claims tokens of None \<Rightarrow> None | Some c \<Rightarrow> exp c)))"
  using assms
  by (simp add: guard_refresh unauthorized_def updateUserSession_fields split: sum.splits)

theorem C3_single_refresh_attempt_witness:
  "isAuthenticated \<lparr>mod_allowedDomains = [[97]], mod_AUTH_ENABLED = True\<rparr>
      \<lparr>getOidcConfig = Inr (Configuration [105]), refreshTokenGrant = (\<lambda>c r. Inr (\<lparr>tr_claims = Some \<lparr>sub = [115], exp = Some 900\<rparr>, tr_access_token = [116], tr_refresh_token = Some [110]\<rparr>)), buildEndSessionUrl = (\<lambda>c i u. Inr []), Date_now = 200000\<rparr>
      \<lparr>req_isAuthenticated = True, req_user = Some \<lparr>claims = None, access_token = None, refresh_token = Some [114], expires_at = Some 100\<rparr>, req_hostname = [97], req_protocol = [104]\<rparr> =
     \<lparr>outcome = Next,
      user_after = Some \<lparr>claims = Some \<lparr>sub = [115], exp = Some 900\<rparr>,
                         access_token = Some [116], refresh_token = Some [110],
                         expires_at = Some 900\<rparr>,
      oidc_calls = [GetOidcConfig, RefreshTokenGrant (Configuration [105]) [114]]\<rparr>"
proof -
  have h1: "mod_AUTH_ENABLED \<lparr>mod_allowedDomains = [[97]], mod_AUTH_ENABLED = True\<rparr>"
    by simp
  have h2: "req_isAuthenticated \<lparr>req_isAuthenticated = True, req_user = Some \<lparr>claims = None, access_token = None, refresh_token = Some [114], expires_at = Some 100\<rparr>, req_hostname = [97], req_protocol = [104]\<rparr>"
    by simp
  have h3: "req_user \<lparr>req_isAuthenticated = True, req_user = Some \<lparr>claims = None, access_token = None, refresh_token = Some [114], expires_at = Some 100\<rparr>, req_hostname = [97], req_protocol = [104]\<rparr> =
      Some \<lparr>claims = None, access_token = None, refresh_token = Some [114], expires_at = Some 100\<rparr>"
    by simp
  have h4: "expires_at \<lparr>claims = None, access_token = None, refresh_token = Some [114], expires_at = Some 100\<rparr> = Some 100"
    by simp
  have h5: "(100::int) \<noteq> 0"
    by simp
  have h6: "100 < now_seconds \<lparr>getOidcConfig = Inr (Configuration [105]), refreshTokenGrant = (\<lambda>c r. Inr (\<lparr>tr_claims = Some \<lparr>sub = [115], exp = Some 900\<rparr>, tr_access_token = [116], tr_refresh_token = Some [110]\<rparr>)), buildEndSessionUrl = (\<lambda>c i u. Inr []), Date_now = 200000\<rparr>"
    by (simp add: now_seconds_def)
  have h7: "refresh_token \<lparr>claims = None, access_token = None, refresh_token = Some [114], expires_at = Some 100\<rparr> = Some [114]"
    by simp
  have h8: "[114::16 word] \<noteq> []"
    by simp
  from C3_single_refresh_attempt [OF h1 h2 h3 h4 h5 h6 h7 h8]
  show ?thesis by (simp add: updateUserSession_fields)
qed

text \<open>
  C4: for every authenticated session whose \<^verbatim>\<open>expires_at\<close> satisfies
  now \<le> \<^verbatim>\<open>expires_at\<close>, the guard calls \<^verbatim>\<open>next\<close>, leaves the user untouched and
  makes no OIDC call, whether auth is enabled or not. The clock is taken to read a time
  after the epoch (now > 0), so that a timestamp not before now is not 0.
\<close>

theorem C4_unexpired_passes:
  assumes "req_isAuthenticated req" and "req_user req = Some u"
    and "expires_at u = Some t" and "now_seconds w \<le> t" and "0 < now_seconds w"
  shows "isAuthenticated m w req =
           \<lparr>outcome = Next, user_after = req_user req, oidc_calls = []\<rparr>"
proof (cases "mod_AUTH_ENABLED m")
  case True
  from assms(4,5) have "t \<noteq> 0" by simp
  with True assms show ?thesis by (simp add: guard_fresh)
next
  case False
  then show ?thesis by (rule guard_disabled)
qed

theorem C4_unexpired_passes_witness:
  "isAuthenticated \<lparr>mod_allowedDomains = [[97]], mod_AUTH_ENABLED = True\<rparr>
      \<lparr>getOidcConfig = Inr (Configuration [105]), refreshTokenGrant = (\<lambda>c r. Inl (Error ''invalid_grant'')), buildEndSessionUrl = (\<lambda>c i u. Inr []), Date_now = 200000\<rparr>
      \<lparr>req_isAuthenticated = True, req_user = Some \<lparr>claims = None, access_token = None, refresh_token = Some [114], expires_at = Some 500\<rparr>, req_hostname = [97], req_protocol = [104]\<rparr> =
     \<lparr>outcome = Next,
      user_after = Some \<lparr>claims = None, access_token = None, refresh_token = Some [114], expires_at = Some 500\<rparr>,
      oidc_calls = []\<rparr>"
proof -
  have h1: "req_isAuthenticated \<lparr>req_isAuthenticated = True, req_user = Some \<lparr>claims = None, access_token = None, refresh_token = Some [114], expires_at = Some 500\<rparr>, req_hostname = [97], req_protocol = [104]\<rparr>"
    by simp
  have h2: "req_user \<lparr>req_isAuthenticated = True, req_user = Some \<lparr>claims = None, access_token = None, refresh_token = Some [114], expires_at = Some 500\<rparr>, req_hostname = [97], req_protocol = [104]\<rparr> =
      Some \<lparr>claims = None, access_token = None, refresh_token = Some [114], expires_at = Some 500\<rparr>"
    by simp
  have h3: "expires_at \<lparr>claims = None, access_token = None, refresh_token = Some [114], expires_at = Some 500\<rparr> = Some 500"
    by simp
  have h4: "now_seconds \<lparr>getOidcConfig = Inr (Configuration [105]), refreshTokenGrant = (\<lambda>c r. Inl (Error ''invalid_grant'')), buildEndSessionUrl = (\<lambda>c i u. Inr []), Date_now = 200000\<rparr> \<le> 500"
    by (simp add: now_seconds_def)
  have h5: "0 < now_seconds \<lparr>getOidcConfig = Inr (Configuration [105]), refreshTokenGrant = (\<lambda>c r. Inl (Error ''invalid_grant'')), buildEndSessionUrl = (\<lambda>c i u. Inr []), Date_now = 200000\<rparr>"
    by (simp add: now_seconds_def)
  from C4_unexpired_passes [OF h1 h2 h3 h4 h5, of "\<lparr>mod_allowedDomains = [[97]], mod_AUTH_ENABLED = True\<rparr>"]
  show ?thesis by simp
qed

text \<open>
  C5: with auth enabled, for every session whose \<^verbatim>\<open>expires_at\<close> is in the past and
  whose \<^verbatim>\<open>refresh_token\<close> is absent (\<^verbatim>\<open>undefined\<close>, or the empty string, which the
  guard reads alike), the guard answers 401 and makes no OIDC call: neither
  \<^verbatim>\<open>getOidcConfig\<close>, the only way to the discovery fetch, nor the refresh exchange.
\<close>

theorem C5_expired_without_refresh_token:
  assumes "mod_AUTH_ENABLED m" and "req_user req = Some u"
    and "expires_at u = Some t" and "t < now_seconds w"
    and "refresh_token u = None \<or> refresh_token u = Some []"
  shows "isAuthenticated m w req =
           \<lparr>outcome = Respond 401 ''Unauthorized'', user_after = req_user req,
            oidc_calls = []\<rparr>"
proof -
  from assms(5) have "\<not> truthy_str (refresh_token u)"
    by (auto simp: truthy_str_def)
  with assms(1-4) show ?thesis
    by (simp add: guard_no_refresh_token unauthorized_def)
qed

theorem C5_expired_without_refresh_token_witness:
  "isAuthenticated \<lparr>mod_allowedDomains = [[97]], mod_AUTH_ENABLED = True\<rparr>
      \<lparr>getOidcConfig = Inr (Configuration [105]), refreshTokenGrant = (\<lambda>c r. Inr (\<lparr>tr_claims = Some \<lparr>sub = [115], exp = Some 900\<rparr>, tr_access_token = [116], tr_refresh_token = Some [110]\<rparr>)), buildEndSessionUrl = (\<lambda>c i u. Inr []), Date_now = 200000\<rparr>
      \<lparr>req_isAuthenticated = True, req_user = Some \<lparr>claims = None, access_token = None, refresh_token = None, expires_at = Some 100\<rparr>, req_hostname = [97], req_protocol = [104]\<rparr> =
     \<lparr>outcome = Respond 401 ''Unauthorized'',
      user_after = Some \<lparr>claims = None, access_token = None, refresh_token = None, expires_at = Some 100\<rparr>,
      oidc_calls = []\<rparr>"
proof -
  have h1: "mod_AUTH_ENABLED \<lparr>mod_allowedDomains = [[97]], mod_AUTH_ENABLED = True\<rparr>"
    by simp
  have h2: "req_user \<lparr>req_isAuthenticated = True, req_user = Some \<lparr>claims = None, access_token = None, refresh_token = None, expires_at = Some 100\<rparr>, req_hostname = [97], req_protocol = [104]\<rparr> =
      Some \<lparr>claims = None, access_token = None, refresh_token = None, expires_at = Some 100\<rparr>"
    by simp
  have h3: "expires_at \<lparr>claims = None, access_token = None, refresh_token = None, expires_at = Some 100\<rparr> = Some 100"
    by simp
  have h4: "100 < now_seconds \<lparr>getOidcConfig = Inr (Configuration [105]), refreshTokenGrant = (\<lambda>c r. Inr (\<lparr>tr_claims = Some \<lparr>sub = [115], exp = Some 900\<rparr>, tr_access_token = [116], tr_refresh_token = Some [110]\<rparr>)), buildEndSessionUrl = (\<lambda>c i u. Inr []), Date_now = 200000\<rparr>"
    by (simp add: now_seconds_def)
  have h5: "refresh_token \<lparr>claims = None, access_token = None, refresh_token = None, expires_at = Some 100\<rparr> = None \<or>
      refresh_token \<lparr>claims = None, access_token = None, refresh_token = None, expires_at = Some 100\<rparr> = Some []"
    by simp
  from C5_expired_without_refresh_token [OF h1 h2 h3 h4 h5]
  show ?thesis by simp
qed

text \<open>
  C9: a successful refresh in the guard overwrites all four fields of the user with
  values of the token response: the claims, the access token, the refresh token as the
  response has it (\<^verbatim>\<open>undefined\<close> when it has none: the old one is not kept) and
  \<^verbatim>\<open>expires_at\<close> as the \<^verbatim>\<open>exp\<close> of the new claims (\<^verbatim>\<open>undefined\<close> when there is none);
  whatever these values are, the guard calls \<^verbatim>\<open>next\<close>.
\<close>

theorem C9_refresh_overwrites_user:
  assumes "mod_AUTH_ENABLED m" and "req_isAuthenticated req" and "req_user req = Some u"
    and "expires_at u = Some t" and "t \<noteq> 0" and "t < now_seconds w"
    and "refresh_token u = Some rt" and "rt \<noteq> []"
    and "getOidcConfig w = Inr config" and "refreshTokenGrant w config rt = Inr tokens"
  shows "outcome (isAuthenticated m w req) = Next \<and>
         user_after (isAuthenticated m w req) =
           Some \<lparr>claims = tr_claims tokens,
                 access_token = Some (tr_access_token tokens),
                 refresh_token = tr_refresh_token tokens,
                 expires_at = (case tr_claims tokens of None \<Rightarrow> None | Some c \<Rightarrow> exp c)\<rparr>"
  using assms
  by (simp add: guard_refresh updateUserSession_fields)

theorem C9_refresh_overwrites_user_witness:
  "outcome (isAuthenticated \<lparr>mod_allowedDomains = [[97]], mod_AUTH_ENABLED = True\<rparr>
      \<lparr>getOidcConfig = Inr (Configuration [105]), refreshTokenGrant = (\<lambda>c r. Inr (\<lparr>tr_claims = None, tr_access_token = [116], tr_refresh_token = None\<rparr>)), buildEndSessionUrl = (\<lambda>c i u. Inr []), Date_now = 200000\<rparr>
      \<lparr>req_isAuthenticated = True, req_user = Some \<lparr>claims = None, access_token = None, refresh_token = Some [114], expires_at = Some 100\<rparr>, req_hostname = [97], req_protocol = [104]\<rparr>) = Next \<and>
   user_after (isAuthenticated \<lparr>mod_allowedDomains = [[97]], mod_AUTH_ENABLED = True\<rparr>
      \<lparr>getOidcConfig = Inr (Configuration [105]), refreshTokenGrant = (\<lambda>c r. Inr (\<lparr>tr_claims = None, tr_access_token = [116], tr_refresh_token = None\<rparr>)), buildEndSessionUrl = (\<lambda>c i u. Inr []), Date_now = 200000\<rparr>
      \<lparr>req_isAuthenticated = True, req_user = Some \<lparr>claims = None, access_token = None, refresh_token = Some [114], expires_at = Some 100\<rparr>, req_hostname = [97], req_protocol = [104]\<rparr>) =
     Some \<lparr>claims = None, access_token = Some [116], refresh_token = None,
           expires_at = None\<rparr>"
proof -
  have h1: "mod_AUTH_ENABLED \<lparr>mod_allowedDomains = [[97]], mod_AUTH_ENABLED = True\<rparr>"
    by simp
  have h2: "req_isAuthenticated \<lparr>req_isAuthenticated = True, req_user = Some \<lparr>claims = None, access_token = None, refresh_token = Some [114], expires_at = Some 100\<rparr>, req_hostname = [97], req_protocol = [104]\<rparr>"
    by simp
  have h3: "req_user \<lparr>req_isAuthenticated = True, req_user = Some \<lparr>claims = None, access_token = None, refresh_token = Some [114], expires_at = Some 100\<rparr>, req_hostname = [97], req_protocol = [104]\<rparr> =
      Some \<lparr>claims = None, access_token = None, refresh_token = Some [114], expires_at = Some 100\<rparr>"
    by simp
  have h4: "expires_at \<lparr>claims = None, access_token = None, refresh_token = Some [114], expires_at = Some 100\<rparr> = Some 100"
    by simp
  have h5: "(100::int) \<noteq> 0"
    by simp
  have h6: "100 < now_seconds \<lparr>getOidcConfig = Inr (Configuration [105]), refreshTokenGrant = (\<lambda>c r. Inr (\<lparr>tr_claims = None, tr_access_token = [116], tr_refresh_token = None\<rparr>)), buildEndSessionUrl = (\<lambda>c i u. Inr []), Date_now = 200000\<rparr>"
    by (simp add: now_seconds_def)
  have h7: "refresh_token \<lparr>claims = None, access_token = None, refresh_token = Some [114], expires_at = Some 100\<rparr> = Some [114]"
    by simp
  have h8: "[114::16 word] \<noteq> []"
    by simp
  have h9: "getOidcConfig \<lparr>getOidcConfig = Inr (Configuration [105]), refreshTokenGrant = (\<lambda>c r. Inr (\<lparr>tr_claims = None, tr_access_token = [116], tr_refresh_token = None\<rparr>)), buildEndSessionUrl = (\<lambda>c i u. Inr []), Date_now = 200000\<rparr> = Inr (Configuration [105])"
    by simp
  have h10: "refreshTokenGrant \<lparr>getOidcConfig = Inr (Configuration [105]), refreshTokenGrant = (\<lambda>c r. Inr (\<lparr>tr_claims = None, tr_access_token = [116], tr_refresh_token = None\<rparr>)), buildEndSessionUrl = (\<lambda>c i u. Inr []), Date_now = 200000\<rparr> (Configuration [105]) [114] =
      Inr \<lparr>tr_claims = None, tr_access_token = [116], tr_refresh_token = None\<rparr>"
    by simp
  from C9_refresh_overwrites_user [OF h1 h2 h3 h4 h5 h6 h7 h8 h9 h10]
  show ?thesis by simp
qed

text \<open>
  C10: with auth enabled and an authenticated principal, a falsy \<^verbatim>\<open>expires_at\<close>
  (\<^verbatim>\<open>undefined\<close>, or the number 0) makes the guard answer 401 with no OIDC call, also
  when a refresh token is present; hence a run that calls \<^verbatim>\<open>next\<close> or makes an OIDC
  call had a truthy \<^verbatim>\<open>expires_at\<close>.
\<close>

theorem C10_falsy_expiry_rejected:
  assumes "mod_AUTH_ENABLED m" and "req_isAuthenticated req" and "req_user req = Some u"
  shows "(expires_at u = None \<or> expires_at u = Some 0 \<longrightarrow>
            isAuthenticated m w req =
              \<lparr>outcome = Respond 401 ''Unauthorized'', user_after = req_user req,
               oidc_calls = []\<rparr>) \<and>
         (outcome (isAuthenticated m w req) = Next \<or> oidc_calls (isAuthenticated m w req) \<noteq> []
            \<longrightarrow> (\<exists>t. expires_at u = Some t \<and> t \<noteq> 0))"
proof -
  have falsy: "isAuthenticated m w req = unauthorized req []"
    if "expires_at u = None \<or> expires_at u = Some 0"
  proof -
    from that have "\<not> truthy_num (expires_at u)"
      by (auto simp: truthy_num_def)
    with assms show ?thesis by (simp add: guard_falsy_expiry)
  qed
  have "\<exists>t. expires_at u = Some t \<and> t \<noteq> 0"
    if "outcome (isAuthenticated m w req) = Next \<or> oidc_calls (isAuthenticated m w req) \<noteq> []"
  proof (rule ccontr)
    assume "\<not> (\<exists>t. expires_at u = Some t \<and> t \<noteq> 0)"
    then have "expires_at u = None \<or> expires_at u = Some 0"
      by (cases "expires_at u") auto
    then have "isAuthenticated m w req = unauthorized req []" by (rule falsy)
    with that show False by (simp add: unauthorized_def)
  qed
  with falsy show ?thesis by (simp add: unauthorized_def)
qed

theorem C10_falsy_expiry_rejected_witness:
  "isAuthenticated \<lparr>mod_allowedDomains = [[97]], mod_AUTH_ENABLED = True\<rparr>
      \<lparr>getOidcConfig = Inr (Configuration [105]), refreshTokenGrant = (\<lambda>c r. Inr (\<lparr>tr_claims = Some \<lparr>sub = [115], exp = Some 900\<rparr>, tr_access_token = [116], tr_refresh_token = Some [110]\<rparr>)), buildEndSessionUrl = (\<lambda>c i u. Inr []), Date_now = 200000\<rparr>
      \<lparr>req_isAuthenticated = True, req_user = Some \<lparr>claims = None, access_token = None, refresh_token = Some [114], expires_at = Some 0\<rparr>, req_hostname = [97], req_protocol = [104]\<rparr> =
     \<lparr>outcome = Respond 401 ''Unauthorized'',
      user_after = Some \<lparr>claims = None, access_token = None, refresh_token = Some [114], expires_at = Some 0\<rparr>,
      oidc_calls = []\<rparr>"
proof -
  have h1: "mod_AUTH_ENABLED \<lparr>mod_allowedDomains = [[97]], mod_AUTH_ENABLED = True\<rparr>"
    by simp
  have h2: "req_isAuthenticated \<lparr>req_isAuthenticated = True, req_user = Some \<lparr>claims = None, access_token = None, refresh_token = Some [114], expires_at = Some 0\<rparr>, req_hostname = [97], req_protocol = [104]\<rparr>"
    by simp
  have h3: "req_user \<lparr>req_isAuthenticated = True, req_user = Some \<lparr>claims = None, access_token = None, refresh_token = Some [114], expires_at = Some 0\<rparr>, req_hostname = [97], req_protocol = [104]\<rparr> =
      Some \<lparr>claims = None, access_token = None, refresh_token = Some [114], expires_at = Some 0\<rparr>"
    by simp
  have z: "expires_at \<lparr>claims = None, access_token = None, refresh_token = Some [114], expires_at = Some 0\<rparr> = None \<or>
      expires_at \<lparr>claims = None, access_token = None, refresh_token = Some [114], expires_at = Some 0\<rparr> = Some 0"
    by simp
  from C10_falsy_expiry_rejected [OF h1 h2 h3,
      of "\<lparr>getOidcConfig = Inr (Configuration [105]), refreshTokenGrant = (\<lambda>c r. Inr (\<lparr>tr_claims = Some \<lparr>sub = [115], exp = Some 900\<rparr>, tr_access_token = [116], tr_refresh_token = Some [110]\<rparr>)), buildEndSessionUrl = (\<lambda>c i u. Inr []), Date_now = 200000\<rparr>"] z
  show ?thesis by simp
qed

end
